theory Spec2Isabelle
  imports Complex_Main
begin

section \<open>Errors, file kinds and encodings\<close>

text \<open>
  The exception classes of \<^verbatim>\<open>osmium/io/file.hpp\<close> and
  \<^verbatim>\<open>osmium/io/xml_output.hpp\<close>, as values. \<open>SystemError\<close> carries the
  message and errno, \<open>IOError\<close> the message, the file name and errno,
  \<open>ArgumentError\<close> the message and the offending value. \<open>OutOfRange\<close> is the
  \<^verbatim>\<open>std::out_of_range\<close> that \<^verbatim>\<open>std::string::substr\<close> throws.
\<close>

datatype error =
    SystemError string int
  | IOError string string int
  | ArgumentError string string
  | XMLWriteError
  | OutOfRange

text \<open>
  \<^verbatim>\<open>osmium::io::FileType\<close> and \<^verbatim>\<open>osmium::io::Encoding\<close> are classes with
  private constructors whose only instances are the static singletons named below; the
  code holds and compares pointers to them, so one constructor per singleton is the
  same thing.
\<close>

datatype FileType = OSM | History | Change

datatype Encoding = PBF | XML | XMLgz | XMLbz2 | OPL | OPLgz | OPLbz2


text \<open>
  Modelled from the spec: \<^verbatim>\<open>Encoding::compress\<close> and
  \<^verbatim>\<open>Encoding::decompress\<close> live in \<^verbatim>\<open>osmium/io/encoding.hpp\<close>, which is
  not among the sources. An encoding names an optional compression and an optional
  decompression filter; the gzip and bzip2 encodings have them, the others have the
  empty string. The parent process only tests these names for emptiness.
\<close>

fun compress :: "Encoding \<Rightarrow> string" where
  "compress XMLgz = ''gzip''"
| "compress OPLgz = ''gzip''"
| "compress XMLbz2 = ''bzip2''"
| "compress OPLbz2 = ''bzip2''"
| "compress _ = ''''"

fun decompress :: "Encoding \<Rightarrow> string" where
  "decompress XMLgz = ''zcat''"
| "decompress OPLgz = ''zcat''"
| "decompress XMLbz2 = ''bzcat''"
| "decompress OPLbz2 = ''bzcat''"
| "decompress _ = ''''"

section \<open>The string operations the constructor uses\<close>

text \<open>
  \<^verbatim>\<open>size_t\<close> is taken as 64 bits wide; positions are naturals and the one
  addition that can overflow is reduced modulo \<open>2 ^ 64\<close> where the code performs it.
  \<open>npos\<close> is \<^verbatim>\<open>std::string::npos\<close>, the largest \<^verbatim>\<open>size_t\<close>.
\<close>

definition npos :: nat where
  "npos = 2 ^ 64 - 1"

text \<open>\<^verbatim>\<open>s.find_first_of(c, pos)\<close>: index of the first \<open>c\<close> at or after \<open>pos\<close>.\<close>

definition find_first_of :: "string \<Rightarrow> char \<Rightarrow> nat \<Rightarrow> nat" where
  "find_first_of s c pos =
     (let k = length (takeWhile (\<lambda>x. x \<noteq> c) (drop pos s))
      in if pos + k < length s then pos + k else npos)"

text \<open>\<^verbatim>\<open>s.find_last_of(c)\<close>: index of the last \<open>c\<close>.\<close>

definition find_last_of :: "string \<Rightarrow> char \<Rightarrow> nat" where
  "find_last_of s c =
     (let k = length (takeWhile (\<lambda>x. x \<noteq> c) (rev s))
      in if k < length s then length s - 1 - k else npos)"

text \<open>
  \<^verbatim>\<open>s.substr(pos, count)\<close>: throws when \<open>pos\<close> is beyond the end, and otherwise
  returns at most \<open>count\<close> characters from \<open>pos\<close> on.
\<close>

definition substr :: "string \<Rightarrow> nat \<Rightarrow> nat \<Rightarrow> error + string" where
  "substr s pos count =
     (if pos > length s then Inl OutOfRange else Inr (take count (drop pos s)))"

section \<open>OSMFile\<close>

record OSMFile =
  m_type :: FileType
  m_encoding :: Encoding
  m_filename :: string
  m_fd :: int
  m_childpid :: int

definition default_settings_for_stdinout :: "OSMFile \<Rightarrow> OSMFile" where
  "default_settings_for_stdinout f = f\<lparr>m_type := OSM, m_encoding := PBF\<rparr>"

definition default_settings_for_file :: "OSMFile \<Rightarrow> OSMFile" where
  "default_settings_for_file f = f\<lparr>m_type := OSM, m_encoding := PBF\<rparr>"

definition default_settings_for_url :: "OSMFile \<Rightarrow> OSMFile" where
  "default_settings_for_url f = f\<lparr>m_type := OSM, m_encoding := XML\<rparr>"

definition set_type_and_encoding :: "string \<Rightarrow> OSMFile \<Rightarrow> OSMFile" where
  "set_type_and_encoding suffix f =
     (if suffix = ''pbf'' \<or> suffix = ''osm.pbf'' then f\<lparr>m_type := OSM, m_encoding := PBF\<rparr>
      else if suffix = ''osm'' then f\<lparr>m_type := OSM, m_encoding := XML\<rparr>
      else if suffix = ''osm.bz2'' then f\<lparr>m_type := OSM, m_encoding := XMLbz2\<rparr>
      else if suffix = ''osm.gz'' then f\<lparr>m_type := OSM, m_encoding := XMLgz\<rparr>
      else if suffix = ''osm.opl'' then f\<lparr>m_type := OSM, m_encoding := OPL\<rparr>
      else if suffix = ''osm.opl.bz2'' then f\<lparr>m_type := OSM, m_encoding := OPLbz2\<rparr>
      else if suffix = ''osm.opl.gz'' then f\<lparr>m_type := OSM, m_encoding := OPLgz\<rparr>
      else if suffix = ''osh.pbf'' then f\<lparr>m_type := History, m_encoding := PBF\<rparr>
      else if suffix = ''osh'' then f\<lparr>m_type := History, m_encoding := XML\<rparr>
      else if suffix = ''osh.bz2'' then f\<lparr>m_type := History, m_encoding := XMLbz2\<rparr>
      else if suffix = ''osh.gz'' then f\<lparr>m_type := History, m_encoding := XMLgz\<rparr>
      else if suffix = ''osc'' then f\<lparr>m_type := Change, m_encoding := XML\<rparr>
      else if suffix = ''osc.bz2'' then f\<lparr>m_type := Change, m_encoding := XMLbz2\<rparr>
      else if suffix = ''osc.gz'' then f\<lparr>m_type := Change, m_encoding := XMLgz\<rparr>
      else default_settings_for_file f)"

text \<open>
  The constructor \<^verbatim>\<open>OSMFile(const std::string& filename)\<close>. The member
  initialisers come first; then the three branches for the standard streams, a URL and
  an ordinary path. In the last branch \<open>n\<close> is the index after the last \<open>/\<close> (or 0),
  and the suffix starts one after the first \<open>.\<close> at or after \<open>n\<close>; when there is no
  such \<open>.\<close> the search returns \<open>npos\<close> and the addition wraps to 0.
\<close>

definition OSMFile_ctor :: "string \<Rightarrow> error + OSMFile" where
  "OSMFile_ctor filename =
     (let f = \<lparr>m_type = OSM, m_encoding = PBF, m_filename = filename,
                m_fd = - 1, m_childpid = 0\<rparr>
      in if filename = '''' \<or> filename = ''-''
         then Inr (default_settings_for_stdinout (f\<lparr>m_filename := ''''\<rparr>))
         else
           (case substr (m_filename f) 0 (find_first_of (m_filename f) CHR '':'' 0) of
              Inl e \<Rightarrow> Inl e
            | Inr protocol \<Rightarrow>
                if protocol = ''http'' \<or> protocol = ''https''
                then Inr (default_settings_for_url f)
                else
                  (let n0 = find_last_of filename CHR ''/'';
                       n = (if n0 = npos then 0 else (n0 + 1) mod 2 ^ 64)
                   in case substr filename
                             ((find_first_of filename CHR ''.'' n + 1) mod 2 ^ 64) npos of
                        Inl e \<Rightarrow> Inl e
                      | Inr suffix \<Rightarrow> Inr (set_type_and_encoding suffix f))))"

section \<open>The operating system, as far as OSMFile calls it\<close>

text \<open>
  How a child process ends, as \<^verbatim>\<open>waitpid\<close> reports it: a normal exit with its exit
  status, or an abnormal end (a signal). \<open>WIFEXITED\<close> and \<open>WEXITSTATUS\<close> are the
  macros of \<^verbatim>\<open>sys/wait.h\<close>.
\<close>

datatype wait_status = Exited nat | Signaled nat

fun WIFEXITED :: "wait_status \<Rightarrow> bool" where
  "WIFEXITED (Exited _) = True"
| "WIFEXITED (Signaled _) = False"

fun WEXITSTATUS :: "wait_status \<Rightarrow> nat" where
  "WEXITSTATUS (Exited n) = n"
| "WEXITSTATUS (Signaled _) = 0"

datatype syscall =
    SysClose int
  | SysOpen string
  | SysPipe
  | SysFork
  | SysWaitpid int

datatype fork_result = ForkFailed | ForkChild int

text \<open>
  The state of the operating system seen from the process that owns the handle:
  \<open>os_errno\<close> is errno; \<open>trace\<close> logs the system calls made, in order;
  \<open>children\<close> lists the child processes not yet waited for, each with the way it ends.
  The remaining fields are what the system answers to the next \<^verbatim>\<open>open\<close>,
  \<^verbatim>\<open>pipe\<close> and \<^verbatim>\<open>fork\<close>, how a child forked next will end, and the errno a
  failing call leaves behind.
\<close>

record os_state =
  os_errno :: int
  trace :: "syscall list"
  children :: "(int \<times> wait_status) list"
  open_ret :: int
  pipe_ret :: "(int \<times> int) option"
  fork_ret :: fork_result
  fork_status :: wait_status
  fail_errno :: int

definition sys_close :: "int \<Rightarrow> os_state \<Rightarrow> os_state" where
  "sys_close fd os = os\<lparr>trace := trace os @ [SysClose fd]\<rparr>"

definition sys_open :: "string \<Rightarrow> os_state \<Rightarrow> int \<times> os_state" where
  "sys_open path os =
     (if open_ret os < 0
      then (open_ret os, os\<lparr>trace := trace os @ [SysOpen path], os_errno := fail_errno os\<rparr>)
      else (open_ret os, os\<lparr>trace := trace os @ [SysOpen path]\<rparr>))"

text \<open>
  \<^verbatim>\<open>waitpid(pid, &status, 0)\<close> blocks until the child has ended, returns its pid and
  status and forgets the child; for a pid that is no child still to be waited for it
  returns -1 and sets errno. The status is absent exactly when the call fails.
\<close>

definition waitpid :: "int \<Rightarrow> os_state \<Rightarrow> int \<times> wait_status option \<times> os_state" where
  "waitpid pid os =
     (case map_of (children os) pid of
        Some st \<Rightarrow>
          (pid, Some st,
           os\<lparr>trace := trace os @ [SysWaitpid pid],
              children := filter (\<lambda>c. fst c \<noteq> pid) (children os)\<rparr>)
      | None \<Rightarrow>
          (- 1, None,
           os\<lparr>trace := trace os @ [SysWaitpid pid], os_errno := fail_errno os\<rparr>))"

text \<open>
  \<^verbatim>\<open>OSMFile::execute\<close>, as the parent process runs it. The branch for
  \<open>pid == 0\<close> is the child's: it never returns to the caller and belongs to another
  process; what the parent learns of it is the child's \<open>wait_status\<close>.
\<close>

definition execute ::
  "string \<Rightarrow> int \<Rightarrow> OSMFile \<Rightarrow> os_state \<Rightarrow> (error + int) \<times> OSMFile \<times> os_state" where
  "execute command input f os =
     (let os1 = os\<lparr>trace := trace os @ [SysPipe]\<rparr>
      in case pipe_ret os1 of
           None \<Rightarrow>
             (Inl (SystemError ''Can't create pipe'' (fail_errno os1)), f,
              os1\<lparr>os_errno := fail_errno os1\<rparr>)
         | Some pipefd \<Rightarrow>
             (let os2 = os1\<lparr>trace := trace os1 @ [SysFork]\<rparr>
              in case fork_ret os2 of
                   ForkFailed \<Rightarrow>
                     (Inl (SystemError ''Can't fork'' (fail_errno os2)), f,
                      os2\<lparr>os_errno := fail_errno os2\<rparr>)
                 | ForkChild pid \<Rightarrow>
                     (let os3 = os2\<lparr>children := children os2 @ [(pid, fork_status os2)]\<rparr>;
                          f1 = f\<lparr>m_childpid := pid\<rparr>;
                          os4 = sys_close (if 1 - input = 0 then fst pipefd else snd pipefd) os3
                      in (Inr (if input = 0 then fst pipefd else snd pipefd), f1, os4))))"

definition open_input_file :: "OSMFile \<Rightarrow> os_state \<Rightarrow> (error + int) \<times> os_state" where
  "open_input_file f os =
     (if m_filename f = '''' then (Inr 0, os)
      else
        (case sys_open (m_filename f) os of
           (fd, os1) \<Rightarrow>
             if fd < 0 then (Inl (IOError ''Open failed'' (m_filename f) (os_errno os1)), os1)
             else (Inr fd, os1)))"

definition open_output_file :: "OSMFile \<Rightarrow> os_state \<Rightarrow> (error + int) \<times> os_state" where
  "open_output_file f os =
     (if m_filename f = '''' then (Inr 1, os)
      else
        (case sys_open (m_filename f) os of
           (fd, os1) \<Rightarrow>
             if fd < 0 then (Inl (IOError ''Open failed'' (m_filename f) (os_errno os1)), os1)
             else (Inr fd, os1)))"

definition open_input_file_or_url ::
  "OSMFile \<Rightarrow> os_state \<Rightarrow> (error + int) \<times> OSMFile \<times> os_state" where
  "open_input_file_or_url f os =
     (case substr (m_filename f) 0 (find_first_of (m_filename f) CHR '':'' 0) of
        Inl e \<Rightarrow> (Inl e, f, os)
      | Inr protocol \<Rightarrow>
          if protocol = ''http'' \<or> protocol = ''https''
          then execute ''curl'' 0 f os
          else (case open_input_file f os of (r, os1) \<Rightarrow> (r, f, os1)))"

text \<open>
  \<^verbatim>\<open>open_for_input\<close> and \<^verbatim>\<open>open_for_output\<close> assign the descriptor to
  \<open>m_fd\<close>; when the right-hand side throws, the assignment does not happen.
\<close>

definition open_for_input :: "OSMFile \<Rightarrow> os_state \<Rightarrow> error option \<times> OSMFile \<times> os_state" where
  "open_for_input f os =
     (case (if decompress (m_encoding f) = '''' then open_input_file_or_url f os
            else execute (decompress (m_encoding f)) 0 f os) of
        (Inl e, f1, os1) \<Rightarrow> (Some e, f1, os1)
      | (Inr fd, f1, os1) \<Rightarrow> (None, f1\<lparr>m_fd := fd\<rparr>, os1))"

definition open_for_output :: "OSMFile \<Rightarrow> os_state \<Rightarrow> error option \<times> OSMFile \<times> os_state" where
  "open_for_output f os =
     (case (if compress (m_encoding f) = ''''
            then (case open_output_file f os of (r, os1) \<Rightarrow> (r, f, os1))
            else execute (compress (m_encoding f)) 1 f os) of
        (Inl e, f1, os1) \<Rightarrow> (Some e, f1, os1)
      | (Inr fd, f1, os1) \<Rightarrow> (None, f1\<lparr>m_fd := fd\<rparr>, os1))"

text \<open>
  \<^verbatim>\<open>OSMFile::close\<close>. The result carries the handle and the system state also when
  it throws, since the object lives on after the exception: the \<^verbatim>\<open>throw\<close> leaves
  the function before \<open>m_childpid\<close> is reset.
\<close>

definition OSMFile_close :: "OSMFile \<Rightarrow> os_state \<Rightarrow> error option \<times> OSMFile \<times> os_state" where
  "OSMFile_close f os =
     (let (f1, os1) = (if m_fd f > 0 then (f\<lparr>m_fd := - 1\<rparr>, sys_close (m_fd f) os)
                       else (f, os))
      in if m_childpid f1 \<noteq> 0
         then
           (case waitpid (m_childpid f1) os1 of
              (pid, status, os2) \<Rightarrow>
                if pid < 0 \<or> (case status of None \<Rightarrow> True
                               | Some st \<Rightarrow> \<not> WIFEXITED st \<or> WEXITSTATUS st \<noteq> 0)
                then (Some (IOError ''Subprocess returned error'' '''' (os_errno os2)), f1, os2)
                else (None, f1\<lparr>m_childpid := 0\<rparr>, os2))
         else (None, f1, os1))"

text \<open>The destructor: \<^verbatim>\<open>close()\<close> with every exception swallowed.\<close>

definition OSMFile_dtor :: "OSMFile \<Rightarrow> os_state \<Rightarrow> os_state" where
  "OSMFile_dtor f os = snd (snd (OSMFile_close f os))"

section \<open>The object model\<close>





datatype item_type = NodeItem | WayItem | RelationItem





section \<open>The document writer capability\<close>

text \<open>
  The calls made on libxml2's text writer, as values. An attribute value is a C string,
  or the result of \<^verbatim>\<open>osmium::timestamp::to_iso\<close> or of
  \<^verbatim>\<open>item_type_to_name\<close>, both of which are outside the sources and are kept
  symbolic. A formatted attribute keeps its format string and its argument.
\<close>

datatype fmt_arg = IntArg int | DoubleArg real

datatype xml_text = Literal string | ToIso int | ItemTypeName item_type

datatype xml_call =
    SetIndent int
  | SetIndentString string
  | StartDocument string
  | StartElement string
  | EndElement
  | WriteAttribute string xml_text
  | WriteFormatAttribute string string fmt_arg

text \<open>
  The writer logs the calls that succeeded. Its calls may fail: \<open>fail_after\<close> is the
  number of calls that still succeed (\<open>None\<close>: every call succeeds). \<open>freed\<close> is set
  by \<^verbatim>\<open>xmlFreeTextWriter\<close>.
\<close>

record xml_writer =
  calls :: "xml_call list"
  fail_after :: "nat option"
  freed :: bool

section \<open>XMLOutput\<close>

record XMLOutput =
  m_file :: OSMFile
  m_generator :: string
  m_xml_writer :: xml_writer
  m_last_op :: char

type_synonym action = "XMLOutput \<Rightarrow> error option \<times> XMLOutput"

text \<open>
  The constructor: \<open>m_last_op\<close> starts as \<^verbatim>\<open>'\0'\<close>; it throws when the writer could
  not be created (\<open>None\<close>).
\<close>

definition XMLOutput_ctor :: "OSMFile \<Rightarrow> string \<Rightarrow> xml_writer option \<Rightarrow> error + XMLOutput" where
  "XMLOutput_ctor file generator w =
     (case w of
        None \<Rightarrow> Inl XMLWriteError
      | Some wr \<Rightarrow>
          Inr \<lparr>m_file = file, m_generator = generator, m_xml_writer = wr,
               m_last_op = CHR 0x00\<rparr>)"

text \<open>
  One call on the writer inside \<^verbatim>\<open>check_for_error\<close>: a negative count throws
  \<open>XMLWriteError\<close>.
\<close>

definition checked :: "xml_call \<Rightarrow> action" where
  "checked c x =
     (let w = m_xml_writer x
      in case fail_after w of
           Some 0 \<Rightarrow> (Some XMLWriteError, x)
         | Some (Suc k) \<Rightarrow>
             (None, x\<lparr>m_xml_writer := w\<lparr>calls := calls w @ [c], fail_after := Some k\<rparr>\<rparr>)
         | None \<Rightarrow> (None, x\<lparr>m_xml_writer := w\<lparr>calls := calls w @ [c]\<rparr>\<rparr>))"

text \<open>Statements in sequence: the first exception ends the block.\<close>

fun seq :: "action list \<Rightarrow> action" where
  "seq [] x = (None, x)"
| "seq (a # as) x =
     (case a x of (Some e, x') \<Rightarrow> (Some e, x') | (None, x') \<Rightarrow> seq as x')"

definition skip :: action where
  "skip x = (None, x)"

text \<open>A conditional statement; the condition reads the state when it is reached.\<close>

definition when_st :: "(XMLOutput \<Rightarrow> bool) \<Rightarrow> action \<Rightarrow> action" where
  "when_st p a x = (if p x then a x else (None, x))"


definition open_close_op_tag :: "char \<Rightarrow> action" where
  "open_close_op_tag op x =
     (if op = m_last_op x then (None, x)
      else
        seq [when_st (\<lambda>x. m_last_op x \<noteq> CHR 0x00) (checked EndElement),
             (if op = CHR ''c'' then checked (StartElement ''create'')
              else if op = CHR ''m'' then checked (StartElement ''modify'')
              else if op = CHR ''d'' then checked (StartElement ''delete'')
              else skip),
             (\<lambda>x. (None, x\<lparr>m_last_op := op\<rparr>))] x)"












section \<open>Notions used to state the properties of OSMFile\<close>

text \<open>
  The table of file name suffixes as the specification documents it: each suffix with
  its file kind and encoding.
\<close>

definition suffix_table :: "(string \<times> FileType \<times> Encoding) list" where
  "suffix_table =
     [(''pbf'', OSM, PBF), (''osm.pbf'', OSM, PBF), (''osm'', OSM, XML),
      (''osm.bz2'', OSM, XMLbz2), (''osm.gz'', OSM, XMLgz), (''osm.opl'', OSM, OPL),
      (''osm.opl.bz2'', OSM, OPLbz2), (''osm.opl.gz'', OSM, OPLgz),
      (''osh.pbf'', History, PBF), (''osh'', History, XML), (''osh.bz2'', History, XMLbz2),
      (''osh.gz'', History, XMLgz),
      (''osc'', Change, XML), (''osc.bz2'', Change, XMLbz2), (''osc.gz'', Change, XMLgz)]"

text \<open>
  The parts of a file name, in the words of the specification: the scheme before the
  first \<open>:\<close>; the part after the last \<open>/\<close>; and the suffix after the first \<open>.\<close> of
  that part.
\<close>

definition protocol_of :: "string \<Rightarrow> string" where
  "protocol_of filename = takeWhile (\<lambda>x. x \<noteq> CHR '':'') filename"

definition basename_of :: "string \<Rightarrow> string" where
  "basename_of filename = rev (takeWhile (\<lambda>x. x \<noteq> CHR ''/'') (rev filename))"

definition suffix_after_dot :: "string \<Rightarrow> string" where
  "suffix_after_dot filename = tl (dropWhile (\<lambda>x. x \<noteq> CHR ''.'') (basename_of filename))"

text \<open>The handle as the member initialisers of the constructor leave it.\<close>

definition new_file :: "string \<Rightarrow> OSMFile" where
  "new_file filename =
     \<lparr>m_type = OSM, m_encoding = PBF, m_filename = filename, m_fd = - 1, m_childpid = 0\<rparr>"

text \<open>
  A file name that takes the third branch of the constructor: not empty, not \<open>-\<close>,
  not a URL; and of a length a \<^verbatim>\<open>std::string\<close> can have.
\<close>

definition ordinary_path :: "string \<Rightarrow> bool" where
  "ordinary_path filename \<longleftrightarrow>
     filename \<noteq> '''' \<and> filename \<noteq> ''-'' \<and>
     protocol_of filename \<noteq> ''http'' \<and> protocol_of filename \<noteq> ''https'' \<and>
     length filename < 2 ^ 64"

text \<open>A child that exits with a non-zero status or ends abnormally.\<close>

definition child_failed :: "wait_status \<Rightarrow> bool" where
  "child_failed st = (case st of Exited n \<Rightarrow> n \<noteq> 0 | Signaled _ \<Rightarrow> True)"

text \<open>
  Sample data: a handle opened for output through a compressing child with pid 42, and
  a system state in which nothing has happened yet.
\<close>

definition stuck_file :: OSMFile where
  "stuck_file = \<lparr>m_type = OSM, m_encoding = XMLgz, m_filename = ''out.osm.gz'',
                  m_fd = 5, m_childpid = 42\<rparr>"

definition idle_os :: os_state where
  "idle_os = \<lparr>os_errno = 0, trace = [], children = [], open_ret = 3,
               pipe_ret = Some (3, 4), fork_ret = ForkChild 42, fork_status = Exited 0,
               fail_errno = 10\<rparr>"

section \<open>Notions used to state the properties of XMLOutput\<close>

text \<open>The log of writer calls of an output object.\<close>

definition out :: "XMLOutput \<Rightarrow> xml_call list" where
  "out x = calls (m_xml_writer x)"

text \<open>
  \<open>wrote x cs x'\<close>: from \<open>x\<close> to \<open>x'\<close> exactly the calls \<open>cs\<close> were logged, and
  nothing else of the output object changed but the writer.
\<close>

definition wrote :: "XMLOutput \<Rightarrow> xml_call list \<Rightarrow> XMLOutput \<Rightarrow> bool" where
  "wrote x cs x' \<longleftrightarrow>
     out x' = out x @ cs \<and> m_last_op x' = m_last_op x \<and> m_file x' = m_file x \<and>
     m_generator x' = m_generator x"



















definition wrapper_name :: "char \<Rightarrow> string" where
  "wrapper_name op =
     (if op = CHR ''c'' then ''create'' else if op = CHR ''m'' then ''modify'' else ''delete'')"

definition is_op :: "char \<Rightarrow> bool" where
  "is_op op \<longleftrightarrow> op = CHR ''c'' \<or> op = CHR ''m'' \<or> op = CHR ''d''"

text \<open>The calls of a grouping transition from the tracked operation \<open>prev\<close> to \<open>op\<close>.\<close>

definition transition_calls :: "char \<Rightarrow> char \<Rightarrow> xml_call list" where
  "transition_calls prev op =
     (if op = prev then []
      else (if prev \<noteq> CHR 0x00 then [EndElement] else []) @
           (if is_op op then [StartElement (wrapper_name op)] else []))"










text \<open>
  \<open>outcome x r x' cs lo\<close>: a run from \<open>x\<close> that returned \<open>r\<close> and left \<open>x'\<close>
  either logged exactly \<open>cs\<close>, left the tracked operation \<open>lo\<close> and kept the file
  and the generator, or threw \<open>XMLWriteError\<close>; and it did not throw when the writer
  never fails.
\<close>

definition outcome ::
  "XMLOutput \<Rightarrow> error option \<Rightarrow> XMLOutput \<Rightarrow> xml_call list \<Rightarrow> char \<Rightarrow> bool" where
  "outcome x r x' cs lo \<longleftrightarrow>
     (case r of
        None \<Rightarrow> out x' = out x @ cs \<and> m_last_op x' = lo \<and> m_file x' = m_file x \<and>
                m_generator x' = m_generator x
      | Some e \<Rightarrow> e = XMLWriteError) \<and>
     (fail_after (m_xml_writer x) = None \<longrightarrow>
        r = None \<and> fail_after (m_xml_writer x') = None)"










text \<open>
  Sample data: an output object as the constructor leaves it, on a writer that never
  fails; records without and with optional fields; five records whose operations are
  create, create, modify, delete, delete; metadata without bounds.
\<close>

definition fresh_output :: "FileType \<Rightarrow> XMLOutput" where
  "fresh_output ft =
     \<lparr>m_file = \<lparr>m_type = ft, m_encoding = XML, m_filename = ''data.xml'', m_fd = 3,
                 m_childpid = 0\<rparr>,
      m_generator = ''osmium'',
      m_xml_writer = \<lparr>calls = [], fail_after = None, freed = False\<rparr>,
      m_last_op = CHR 0x00\<rparr>"







section \<open>Lemmas about file names and the handle\<close>

text \<open>
  The string operations of the constructor, related to the parts of a file name.
\<close>

lemma takeWhile_length_less:
  "c \<in> set xs \<Longrightarrow> length (takeWhile (\<lambda>x. x \<noteq> c) xs) < length xs"
  by (induction xs) auto

lemma takeWhile_length_all:
  "c \<notin> set xs \<Longrightarrow> length (takeWhile (\<lambda>x. x \<noteq> c) xs) = length xs"
  by (induction xs) auto

lemma find_first_of_found:
  assumes "c \<in> set (drop pos s)"
  shows "find_first_of s c pos = pos + length (takeWhile (\<lambda>x. x \<noteq> c) (drop pos s))"
  using takeWhile_length_less[OF assms] by (simp add: find_first_of_def Let_def) linarith

lemma find_first_of_none:
  assumes "c \<notin> set (drop pos s)"
  shows "find_first_of s c pos = npos"
  using takeWhile_length_all[OF assms] by (simp add: find_first_of_def Let_def) linarith

lemma find_last_of_found:
  assumes "c \<in> set s"
  shows "find_last_of s c = length s - 1 - length (takeWhile (\<lambda>x. x \<noteq> c) (rev s))"
  using takeWhile_length_less[of c "rev s"] assms by (simp add: find_last_of_def Let_def)

lemma find_last_of_none:
  assumes "c \<notin> set s"
  shows "find_last_of s c = npos"
  using takeWhile_length_all[of c "rev s"] assms by (simp add: find_last_of_def Let_def)

lemma take_length_takeWhile:
  "take (length (takeWhile P xs)) xs = takeWhile P xs"
  by (induction xs) auto

lemma drop_length_takeWhile:
  "drop (length (takeWhile P xs)) xs = dropWhile P xs"
  by (induction xs) auto

lemma npos_succ: "(npos + 1) mod 2 ^ 64 = 0" "Suc npos mod 18446744073709551616 = 0"
  by (simp_all add: npos_def)

lemma protocol_substr:
  assumes "length filename < 2 ^ 64"
  shows "substr filename 0 (find_first_of filename CHR '':'' 0) = Inr (protocol_of filename)"
proof (cases "CHR '':'' \<in> set filename")
  case True
  then show ?thesis
    using find_first_of_found[of "CHR '':''" 0 filename]
    by (simp add: substr_def protocol_of_def take_length_takeWhile)
next
  case False
  have tw: "takeWhile (\<lambda>x. x \<noteq> CHR '':'') filename = filename"
    using False by (auto simp: takeWhile_eq_all_conv)
  have ff: "find_first_of filename CHR '':'' 0 = npos"
    using False find_first_of_none[of "CHR '':''" 0 filename] by simp
  have "length filename \<le> npos" using assms by (simp add: npos_def)
  then have tk: "take npos filename = filename" by (rule take_all)
  show ?thesis
    by (simp only: ff substr_def protocol_of_def tw) (simp add: tk)
qed

lemma basename_start:
  assumes "length filename < 2 ^ 64"
  shows "(let n0 = find_last_of filename CHR ''/''
          in if n0 = npos then 0 else (n0 + 1) mod 2 ^ 64)
         = length filename - length (basename_of filename)"
proof (cases "CHR ''/'' \<in> set filename")
  case True
  let ?k = "length (takeWhile (\<lambda>x. x \<noteq> CHR ''/'') (rev filename))"
  have k: "?k < length filename"
    using takeWhile_length_less[of "CHR ''/''" "rev filename"] True by simp
  have n0: "find_last_of filename CHR ''/'' = length filename - 1 - ?k"
    using find_last_of_found[OF True] .
  have a: "length filename - 1 - ?k \<noteq> npos"
    using assms k by (simp add: npos_def)
  have "length filename - 1 - ?k + 1 = length filename - ?k"
    using k by simp
  then have b: "(length filename - 1 - ?k + 1) mod 2 ^ 64 = length filename - ?k"
    using assms by simp
  show ?thesis
    using a b by (simp add: n0 Let_def basename_of_def)
next
  case False
  then show ?thesis
    using find_last_of_none[OF False] takeWhile_length_all[of "CHR ''/''" "rev filename"]
    by (simp add: Let_def basename_of_def)
qed

lemma drop_basename:
  "drop (length filename - length (basename_of filename)) filename = basename_of filename"
proof -
  let ?P = "\<lambda>x. x \<noteq> CHR ''/''"
  have "rev filename = takeWhile ?P (rev filename) @ dropWhile ?P (rev filename)"
    by simp
  then have "filename = rev (dropWhile ?P (rev filename)) @ rev (takeWhile ?P (rev filename))"
    by (metis rev_append rev_rev_ident)
  then have f: "filename = rev (dropWhile ?P (rev filename)) @ basename_of filename"
    by (simp add: basename_of_def)
  have "length filename - length (basename_of filename) = length (rev (dropWhile ?P (rev filename)))"
    using arg_cong[OF f, of length] by simp
  then show ?thesis
    using f by (metis append_eq_conv_conj)
qed

lemma suffix_substr:
  assumes len: "length filename < 2 ^ 64"
    and n: "n = length filename - length (basename_of filename)"
  shows "substr filename ((find_first_of filename CHR ''.'' n + 1) mod 2 ^ 64) npos =
         Inr (if CHR ''.'' \<in> set (basename_of filename) then suffix_after_dot filename
              else filename)"
proof (cases "CHR ''.'' \<in> set (basename_of filename)")
  case True
  let ?b = "basename_of filename"
  let ?k = "length (takeWhile (\<lambda>x. x \<noteq> CHR ''.'') ?b)"
  have d: "drop n filename = ?b" using n drop_basename by simp
  have k: "?k < length ?b" using takeWhile_length_less[OF True] .
  have lb: "n + length ?b = length filename"
    using arg_cong[OF d, of length] n by simp
  have ff: "find_first_of filename CHR ''.'' n = n + ?k"
    using find_first_of_found[of "CHR ''.''" n filename] True d by simp
  define p where "p = n + ?k + 1"
  have small: "p \<le> length filename" using k lb by (simp add: p_def)
  then have m: "p mod 2 ^ 64 = p" using len by simp
  have "drop p filename = drop (?k + 1) (drop n filename)"
    by (simp add: p_def add.commute add.left_commute)
  also have "\<dots> = tl (drop ?k ?b)" by (simp add: d drop_Suc tl_drop)
  also have "\<dots> = suffix_after_dot filename"
    by (simp add: drop_length_takeWhile suffix_after_dot_def)
  finally have dr: "drop p filename = suffix_after_dot filename" .
  have "length (drop p filename) \<le> npos"
    using len by (simp add: npos_def)
  then have tk: "take npos (drop p filename) = drop p filename"
    by (rule take_all)
  have ff': "(find_first_of filename CHR ''.'' n + 1) mod 2 ^ 64 = p"
    using m by (simp add: ff p_def)
  have "substr filename p npos = Inr (suffix_after_dot filename)"
    unfolding substr_def tk using small dr by simp
  then show ?thesis
    using True by (simp only: ff' if_True)
next
  case False
  have d: "drop n filename = basename_of filename" using n drop_basename by simp
  have ff: "find_first_of filename CHR ''.'' n = npos"
    using find_first_of_none[of "CHR ''.''" n filename] False d by simp
  have "length filename \<le> npos" using len by (simp add: npos_def)
  then have "take npos filename = filename" by (rule take_all)
  then show ?thesis
    using False by (simp add: ff npos_succ substr_def)
qed

lemma ctor_path:
  assumes "filename \<noteq> ''''" "filename \<noteq> ''-''"
    and "protocol_of filename \<noteq> ''http''" "protocol_of filename \<noteq> ''https''"
    and len: "length filename < 2 ^ 64"
  shows "OSMFile_ctor filename =
         Inr (set_type_and_encoding
                (if CHR ''.'' \<in> set (basename_of filename) then suffix_after_dot filename
                 else filename)
                (new_file filename))"
  using assms(1-4) protocol_substr[OF len] basename_start[OF len]
    suffix_substr[OF len refl]
  by (simp add: OSMFile_ctor_def Let_def new_file_def)

lemma ctor_url:
  assumes "filename \<noteq> ''''" "filename \<noteq> ''-''"
    and "protocol_of filename = ''http'' \<or> protocol_of filename = ''https''"
    and len: "length filename < 2 ^ 64"
  shows "OSMFile_ctor filename = Inr (default_settings_for_url (new_file filename))"
  using assms(1-3) protocol_substr[OF len]
  by (auto simp add: OSMFile_ctor_def Let_def new_file_def)

lemma table_entries:
  "\<forall>e \<in> set suffix_table.
     m_type (set_type_and_encoding (fst e) f) = fst (snd e) \<and>
     m_encoding (set_type_and_encoding (fst e) f) = snd (snd e)"
  by (simp add: suffix_table_def set_type_and_encoding_def)

lemma table_default:
  "s \<notin> fst ` set suffix_table \<Longrightarrow>
     m_type (set_type_and_encoding s f) = OSM \<and> m_encoding (set_type_and_encoding s f) = PBF"
  by (simp add: suffix_table_def set_type_and_encoding_def default_settings_for_file_def)

lemma empty_protocol: "substr '''' 0 (find_first_of '''' CHR '':'' 0) = Inr ''''"
  by (simp add: substr_def)

lemma close_trace:
  "trace (snd (snd (OSMFile_close f os))) =
     trace os @ (if m_fd f > 0 then [SysClose (m_fd f)] else []) @
     (if m_childpid f \<noteq> 0 then [SysWaitpid (m_childpid f)] else [])"
  by (simp add: OSMFile_close_def sys_close_def waitpid_def Let_def
      split: option.splits prod.splits)

lemma close_fd:
  "m_fd (fst (snd (OSMFile_close f os))) = (if m_fd f > 0 then - 1 else m_fd f)"
  by (simp add: OSMFile_close_def sys_close_def waitpid_def Let_def
      split: option.splits prod.splits)

lemma map_of_filter_out: "map_of (filter (\<lambda>c. fst c \<noteq> k) xs) k = None"
  by (induction xs) auto

lemma waitpid_again:
  "fst (waitpid pid (snd (snd (waitpid pid os)))) = - 1"
proof (cases "map_of (children os) pid")
  case None
  then have "children (snd (snd (waitpid pid os))) = children os"
    by (simp add: waitpid_def)
  with None show ?thesis by (simp add: waitpid_def)
next
  case (Some st)
  then have "children (snd (snd (waitpid pid os))) =
             filter (\<lambda>c. fst c \<noteq> pid) (children os)"
    by (simp add: waitpid_def)
  then have "map_of (children (snd (snd (waitpid pid os)))) pid = None"
    by (simp add: map_of_filter_out)
  then show ?thesis by (simp add: waitpid_def)
qed

section \<open>Properties of OSMFile\<close>

text \<open>
  Claim C6. For every suffix of the documented table, \<open>set_type_and_encoding\<close>
  assigns exactly the documented kind and encoding (pbf, osm.pbf, osm, osm.bz2, osm.gz,
  osm.opl, osm.opl.bz2, osm.opl.gz: Plain; osh.pbf, osh, osh.bz2, osh.gz: History; osc,
  osc.bz2, osc.gz: Change); for every suffix that is not in the table it assigns the
  default for ordinary files, the Plain kind with the PBF encoding; and for an ordinary
  path with a \<open>.\<close> after its last \<open>/\<close> the constructor resolves the suffix after
  that first \<open>.\<close>.
\<close>

theorem suffix_table_resolution:
  "(\<forall>e \<in> set suffix_table.
      m_type (set_type_and_encoding (fst e) f) = fst (snd e) \<and>
      m_encoding (set_type_and_encoding (fst e) f) = snd (snd e)) \<and>
   (s \<notin> fst ` set suffix_table \<longrightarrow>
      m_type (set_type_and_encoding s f) = OSM \<and>
      m_encoding (set_type_and_encoding s f) = PBF) \<and>
   (ordinary_path filename \<and> CHR ''.'' \<in> set (basename_of filename) \<longrightarrow>
      OSMFile_ctor filename =
        Inr (set_type_and_encoding (suffix_after_dot filename) (new_file filename))) \<and>
   (ordinary_path filename \<and> CHR ''.'' \<in> set (basename_of filename) \<and>
    (suffix_after_dot filename, k, enc) \<in> set suffix_table \<longrightarrow>
      OSMFile_ctor filename = Inr ((new_file filename)\<lparr>m_type := k, m_encoding := enc\<rparr>)) \<and>
   (ordinary_path filename \<and> CHR ''.'' \<in> set (basename_of filename) \<and>
    suffix_after_dot filename \<notin> fst ` set suffix_table \<longrightarrow>
      OSMFile_ctor filename = Inr ((new_file filename)\<lparr>m_type := OSM, m_encoding := PBF\<rparr>))"
proof -
  have c: "OSMFile_ctor filename =
        Inr (set_type_and_encoding (suffix_after_dot filename) (new_file filename))"
    if "ordinary_path filename" "CHR ''.'' \<in> set (basename_of filename)"
    using that ctor_path[of filename] by (simp add: ordinary_path_def)
  have d: "set_type_and_encoding (suffix_after_dot filename) (new_file filename) =
           (new_file filename)\<lparr>m_type := k, m_encoding := enc\<rparr>"
    if "(suffix_after_dot filename, k, enc) \<in> set suffix_table"
    using that by (auto simp: suffix_table_def set_type_and_encoding_def)
  have e: "set_type_and_encoding (suffix_after_dot filename) (new_file filename) =
           (new_file filename)\<lparr>m_type := OSM, m_encoding := PBF\<rparr>"
    if "suffix_after_dot filename \<notin> fst ` set suffix_table"
    using that
    by (simp add: suffix_table_def set_type_and_encoding_def default_settings_for_file_def)
  show ?thesis
    using table_entries[of f] table_default[of s f] c d e by simp
qed

text \<open>
  The statement at the suffixes \<open>osh.gz\<close> and \<open>txt\<close> and at the file name
  \<open>a.d/x.osc.bz2\<close>.
\<close>

theorem suffix_table_resolution_witness:
  "m_type (set_type_and_encoding ''osh.gz'' (new_file ''x'')) = History \<and>
   m_encoding (set_type_and_encoding ''osh.gz'' (new_file ''x'')) = XMLgz \<and>
   m_type (set_type_and_encoding ''txt'' (new_file ''x'')) = OSM \<and>
   m_encoding (set_type_and_encoding ''txt'' (new_file ''x'')) = PBF \<and>
   ordinary_path ''a.d/x.osc.bz2'' \<and> suffix_after_dot ''a.d/x.osc.bz2'' = ''osc.bz2'' \<and>
   OSMFile_ctor ''a.d/x.osc.bz2'' =
     Inr ((new_file ''a.d/x.osc.bz2'')\<lparr>m_type := Change, m_encoding := XMLbz2\<rparr>) \<and>
   ordinary_path ''notes.txt'' \<and> suffix_after_dot ''notes.txt'' = ''txt'' \<and>
   OSMFile_ctor ''notes.txt'' =
     Inr ((new_file ''notes.txt'')\<lparr>m_type := OSM, m_encoding := PBF\<rparr>)"
  using suffix_table_resolution[of "new_file ''x''" "''txt''" "''a.d/x.osc.bz2''" Change XMLbz2]
    suffix_table_resolution[of "new_file ''x''" "''txt''" "''notes.txt''" OSM PBF]
  by (simp add: suffix_table_def ordinary_path_def protocol_of_def basename_of_def
      suffix_after_dot_def set_type_and_encoding_def default_settings_for_file_def)

text \<open>
  Claim C9, as amended. Take a file name that is neither empty nor \<open>-\<close>, that has
  no \<open>.\<close> after its last \<open>/\<close> (no \<open>.\<close> at all when it has no \<open>/\<close>), and
  that is shorter than \<open>2 ^ 64\<close> characters, as every \<^verbatim>\<open>std::string\<close> is. When
  the text before its first \<open>:\<close> (the whole name when it has no \<open>:\<close>) is neither
  \<open>http\<close> nor \<open>https\<close>, the constructor takes the entire file name, its directory
  part included, as the suffix and looks that up in the table. When that text is
  \<open>http\<close> or \<open>https\<close>, which is the case of the bare names \<open>http\<close> and
  \<open>https\<close> too, the constructor looks nothing up and gives the Plain kind with the
  XML encoding; this branch does not depend on where the name has a \<open>.\<close>. The
  name \<open>-\<close> gives the Plain kind with the PBF encoding and an empty stored path.
  So the bare name \<open>osc\<close> resolves to the Change kind with the XML encoding,
  \<open>dir/osc\<close> resolves to the default for ordinary files, the Plain kind with the
  PBF encoding, and \<open>http\<close> and \<open>https\<close> resolve to the Plain kind with the
  XML encoding.
\<close>

theorem dotless_filename_is_suffix:
  "(filename \<noteq> '''' \<and> filename \<noteq> ''-'' \<and>
    protocol_of filename \<noteq> ''http'' \<and> protocol_of filename \<noteq> ''https'' \<and>
    length filename < 2 ^ 64 \<and> CHR ''.'' \<notin> set (basename_of filename) \<longrightarrow>
      OSMFile_ctor filename = Inr (set_type_and_encoding filename (new_file filename))) \<and>
   (filename \<noteq> '''' \<and> filename \<noteq> ''-'' \<and>
    (protocol_of filename = ''http'' \<or> protocol_of filename = ''https'') \<and>
    length filename < 2 ^ 64 \<longrightarrow>
      OSMFile_ctor filename =
        Inr ((new_file filename)\<lparr>m_type := OSM, m_encoding := XML\<rparr>)) \<and>
   OSMFile_ctor ''-'' = Inr ((new_file '''')\<lparr>m_type := OSM, m_encoding := PBF\<rparr>) \<and>
   OSMFile_ctor ''osc'' = Inr ((new_file ''osc'')\<lparr>m_type := Change, m_encoding := XML\<rparr>) \<and>
   OSMFile_ctor ''dir/osc'' = Inr ((new_file ''dir/osc'')\<lparr>m_type := OSM, m_encoding := PBF\<rparr>) \<and>
   OSMFile_ctor ''http'' = Inr ((new_file ''http'')\<lparr>m_type := OSM, m_encoding := XML\<rparr>) \<and>
   OSMFile_ctor ''https'' = Inr ((new_file ''https'')\<lparr>m_type := OSM, m_encoding := XML\<rparr>)"
proof -
  have path: "filename \<noteq> '''' \<and> filename \<noteq> ''-'' \<and>
      protocol_of filename \<noteq> ''http'' \<and> protocol_of filename \<noteq> ''https'' \<and>
      length filename < 2 ^ 64 \<and> CHR ''.'' \<notin> set (basename_of filename) \<longrightarrow>
      OSMFile_ctor filename = Inr (set_type_and_encoding filename (new_file filename))"
    using ctor_path[of filename] by simp
  have url: "filename \<noteq> '''' \<and> filename \<noteq> ''-'' \<and>
      (protocol_of filename = ''http'' \<or> protocol_of filename = ''https'') \<and>
      length filename < 2 ^ 64 \<longrightarrow>
      OSMFile_ctor filename =
        Inr ((new_file filename)\<lparr>m_type := OSM, m_encoding := XML\<rparr>)"
    using ctor_url[of filename] by (simp add: default_settings_for_url_def)
  have dash: "OSMFile_ctor ''-'' = Inr ((new_file '''')\<lparr>m_type := OSM, m_encoding := PBF\<rparr>)"
    by (simp add: OSMFile_ctor_def default_settings_for_stdinout_def new_file_def)
  have a: "OSMFile_ctor ''osc'' = Inr ((new_file ''osc'')\<lparr>m_type := Change, m_encoding := XML\<rparr>)"
    using ctor_path[of "''osc''"]
    by (simp add: protocol_of_def basename_of_def set_type_and_encoding_def)
  have b: "OSMFile_ctor ''dir/osc'' = Inr ((new_file ''dir/osc'')\<lparr>m_type := OSM, m_encoding := PBF\<rparr>)"
    using ctor_path[of "''dir/osc''"]
    by (simp add: protocol_of_def basename_of_def set_type_and_encoding_def
        default_settings_for_file_def)
  have c: "OSMFile_ctor ''http'' = Inr ((new_file ''http'')\<lparr>m_type := OSM, m_encoding := XML\<rparr>)"
    using ctor_url[of "''http''"]
    by (simp add: protocol_of_def default_settings_for_url_def)
  have d: "OSMFile_ctor ''https'' = Inr ((new_file ''https'')\<lparr>m_type := OSM, m_encoding := XML\<rparr>)"
    using ctor_url[of "''https''"]
    by (simp add: protocol_of_def default_settings_for_url_def)
  show ?thesis
    using path url dash a b c d by (intro conjI)
qed

text \<open>
  The statement at the file name \<open>data/osh\<close>, which is looked up whole and resolves
  to the Plain kind with the PBF encoding, and at the file name
  \<open>https://host/osc\<close>, which is not looked up and resolves to the Plain kind with
  the XML encoding.
\<close>

theorem dotless_filename_is_suffix_witness:
  "''data/osh'' \<noteq> '''' \<and> ''data/osh'' \<noteq> ''-'' \<and>
   protocol_of ''data/osh'' \<noteq> ''http'' \<and> protocol_of ''data/osh'' \<noteq> ''https'' \<and>
   length ''data/osh'' < 2 ^ 64 \<and> CHR ''.'' \<notin> set (basename_of ''data/osh'') \<and>
   OSMFile_ctor ''data/osh'' = Inr (new_file ''data/osh'') \<and>
   ''https://host/osc'' \<noteq> '''' \<and> ''https://host/osc'' \<noteq> ''-'' \<and>
   protocol_of ''https://host/osc'' = ''https'' \<and>
   length ''https://host/osc'' < 2 ^ 64 \<and>
   OSMFile_ctor ''https://host/osc'' =
     Inr ((new_file ''https://host/osc'')\<lparr>m_type := OSM, m_encoding := XML\<rparr>)"
  using dotless_filename_is_suffix[of "''data/osh''", THEN conjunct1]
    dotless_filename_is_suffix[of "''https://host/osc''", THEN conjunct2, THEN conjunct1]
  by (simp add: protocol_of_def basename_of_def set_type_and_encoding_def
      default_settings_for_file_def new_file_def)

text \<open>
  Claim C9 as it is written fails at \<open>dir/osc\<close>: the name is not empty, not a URL and
  has no \<open>.\<close> after its last \<open>/\<close>, the string that remains after the last \<open>/\<close>
  is \<open>osc\<close>, and yet the constructor does not resolve the suffix \<open>osc\<close>; it looks
  up \<open>dir/osc\<close>. It fails at the bare name \<open>http\<close> as well: the name is not
  empty, has no \<open>:\<close>, no \<open>/\<close> and no \<open>.\<close>, and yet the constructor does not
  look it up in the table, where it would get the PBF encoding; it gives the XML
  encoding. The bare name \<open>https\<close> behaves the same.
\<close>

theorem basename_is_not_the_suffix_counterexample:
  "ordinary_path ''dir/osc'' \<and> CHR ''.'' \<notin> set (basename_of ''dir/osc'') \<and>
   basename_of ''dir/osc'' = ''osc'' \<and>
   OSMFile_ctor ''dir/osc'' \<noteq>
     Inr (set_type_and_encoding (basename_of ''dir/osc'') (new_file ''dir/osc'')) \<and>
   OSMFile_ctor ''dir/osc'' = Inr (set_type_and_encoding ''dir/osc'' (new_file ''dir/osc'')) \<and>
   ''http'' \<noteq> '''' \<and> CHR '':'' \<notin> set ''http'' \<and> CHR ''/'' \<notin> set ''http'' \<and>
   CHR ''.'' \<notin> set ''http'' \<and>
   OSMFile_ctor ''http'' \<noteq> Inr (set_type_and_encoding ''http'' (new_file ''http'')) \<and>
   OSMFile_ctor ''http'' = Inr ((new_file ''http'')\<lparr>m_type := OSM, m_encoding := XML\<rparr>) \<and>
   ''https'' \<noteq> '''' \<and> CHR '':'' \<notin> set ''https'' \<and> CHR ''/'' \<notin> set ''https'' \<and>
   CHR ''.'' \<notin> set ''https'' \<and>
   OSMFile_ctor ''https'' \<noteq> Inr (set_type_and_encoding ''https'' (new_file ''https'')) \<and>
   OSMFile_ctor ''https'' = Inr ((new_file ''https'')\<lparr>m_type := OSM, m_encoding := XML\<rparr>)"
  using ctor_path[of "''dir/osc''"] ctor_url[of "''http''"] ctor_url[of "''https''"]
  by (simp add: ordinary_path_def protocol_of_def basename_of_def set_type_and_encoding_def
      default_settings_for_file_def default_settings_for_url_def new_file_def)

text \<open>
  Claim C10. \<open>close()\<close> calls \<^verbatim>\<open>::close\<close> on the stored descriptor exactly when
  it is strictly positive, and then stores -1. A handle with an empty path opened for
  input holds descriptor 0, which \<open>close()\<close> neither closes nor resets; opened
  for output it holds descriptor 1, which \<open>close()\<close> closes.
\<close>

theorem close_releases_positive_descriptor_only:
  "trace (snd (snd (OSMFile_close f os))) =
     trace os @ (if m_fd f > 0 then [SysClose (m_fd f)] else []) @
     (if m_childpid f \<noteq> 0 then [SysWaitpid (m_childpid f)] else []) \<and>
   m_fd (fst (snd (OSMFile_close f os))) = (if m_fd f > 0 then - 1 else m_fd f) \<and>
   (m_filename f = '''' \<and> decompress (m_encoding f) = '''' \<longrightarrow>
      open_for_input f os = (None, f\<lparr>m_fd := 0\<rparr>, os)) \<and>
   (m_filename f = '''' \<and> compress (m_encoding f) = '''' \<longrightarrow>
      open_for_output f os = (None, f\<lparr>m_fd := 1\<rparr>, os)) \<and>
   (m_childpid f = 0 \<longrightarrow>
      OSMFile_close (f\<lparr>m_fd := 0\<rparr>) os = (None, f\<lparr>m_fd := 0\<rparr>, os) \<and>
      OSMFile_close (f\<lparr>m_fd := 1\<rparr>) os = (None, f\<lparr>m_fd := - 1\<rparr>, sys_close 1 os))"
proof -
  have a: "m_filename f = '''' \<and> decompress (m_encoding f) = '''' \<longrightarrow>
      open_for_input f os = (None, f\<lparr>m_fd := 0\<rparr>, os)"
    by (simp add: open_for_input_def open_input_file_or_url_def open_input_file_def
        empty_protocol)
  have b: "m_filename f = '''' \<and> compress (m_encoding f) = '''' \<longrightarrow>
      open_for_output f os = (None, f\<lparr>m_fd := 1\<rparr>, os)"
    by (simp add: open_for_output_def open_output_file_def)
  have c: "m_childpid f = 0 \<longrightarrow>
      OSMFile_close (f\<lparr>m_fd := 0\<rparr>) os = (None, f\<lparr>m_fd := 0\<rparr>, os) \<and>
      OSMFile_close (f\<lparr>m_fd := 1\<rparr>) os = (None, f\<lparr>m_fd := - 1\<rparr>, sys_close 1 os)"
    by (simp add: OSMFile_close_def)
  show ?thesis
    using a b c close_trace[of f os] close_fd[of f os] by (simp only: simp_thms)
qed

text \<open>
  The statement at the handle the constructor builds for the empty file name.
\<close>

theorem close_releases_positive_descriptor_only_witness:
  "OSMFile_ctor '''' = Inr (new_file '''') \<and>
   open_for_input (new_file '''') idle_os = (None, (new_file '''')\<lparr>m_fd := 0\<rparr>, idle_os) \<and>
   OSMFile_close ((new_file '''')\<lparr>m_fd := 0\<rparr>) idle_os =
     (None, (new_file '''')\<lparr>m_fd := 0\<rparr>, idle_os) \<and>
   open_for_output (new_file '''') idle_os = (None, (new_file '''')\<lparr>m_fd := 1\<rparr>, idle_os) \<and>
   OSMFile_close ((new_file '''')\<lparr>m_fd := 1\<rparr>) idle_os =
     (None, (new_file '''')\<lparr>m_fd := - 1\<rparr>, idle_os\<lparr>trace := [SysClose 1]\<rparr>)"
  using close_releases_positive_descriptor_only[of "new_file ''''" idle_os]
  by (simp add: new_file_def idle_os_def sys_close_def OSMFile_ctor_def
      default_settings_for_stdinout_def)

text \<open>
  Claim C5. For a handle whose recorded child is a child process of the caller that has
  not been waited for, \<open>close()\<close> fails with an \<open>IOError\<close> if and only if the
  child exits with a non-zero status or ends abnormally; when the child exits with
  status 0, \<open>close()\<close> succeeds.
\<close>

theorem close_fails_iff_child_failed:
  assumes "0 < m_childpid f"
    and "map_of (children os) (m_childpid f) = Some st"
  shows "fst (OSMFile_close f os) =
           (if child_failed st
            then Some (IOError ''Subprocess returned error'' '''' (os_errno os))
            else None) \<and>
         (st = Exited 0 \<longrightarrow> fst (OSMFile_close f os) = None)"
  using assms
  by (cases st)
     (simp_all add: OSMFile_close_def sys_close_def waitpid_def Let_def child_failed_def)

text \<open>
  The statement for a child that exits with status 3, one that is killed by signal 9,
  and one that exits with status 0.
\<close>

theorem close_fails_iff_child_failed_witness:
  "fst (OSMFile_close stuck_file (idle_os\<lparr>children := [(42, Exited 3)]\<rparr>)) =
     Some (IOError ''Subprocess returned error'' '''' 0) \<and>
   fst (OSMFile_close stuck_file (idle_os\<lparr>children := [(42, Signaled 9)]\<rparr>)) =
     Some (IOError ''Subprocess returned error'' '''' 0) \<and>
   fst (OSMFile_close stuck_file (idle_os\<lparr>children := [(42, Exited 0)]\<rparr>)) = None"
  using close_fails_iff_child_failed[of stuck_file "idle_os\<lparr>children := [(42, Exited 3)]\<rparr>" "Exited 3"]
    close_fails_iff_child_failed[of stuck_file "idle_os\<lparr>children := [(42, Signaled 9)]\<rparr>" "Signaled 9"]
    close_fails_iff_child_failed[of stuck_file "idle_os\<lparr>children := [(42, Exited 0)]\<rparr>" "Exited 0"]
  by (simp add: stuck_file_def idle_os_def child_failed_def)

text \<open>
  Claim C4, on the code. After a \<open>close()\<close> that succeeded, a second \<open>close()\<close>
  does nothing. After a \<open>close()\<close> that failed, the child identifier is still
  recorded: the \<^verbatim>\<open>throw\<close> comes before \<open>m_childpid = 0\<close>. A second
  \<open>close()\<close> then waits for the same child once more and fails again, so it is not
  a no-op as the claim says.
\<close>

theorem close_after_failed_close:
  "(fst (OSMFile_close f os) = None \<longrightarrow>
      OSMFile_close (fst (snd (OSMFile_close f os))) (snd (snd (OSMFile_close f os))) =
        (None, fst (snd (OSMFile_close f os)), snd (snd (OSMFile_close f os)))) \<and>
   (fst (OSMFile_close f os) \<noteq> None \<longrightarrow>
      m_childpid (fst (snd (OSMFile_close f os))) = m_childpid f \<and> m_childpid f \<noteq> 0 \<and>
      fst (OSMFile_close (fst (snd (OSMFile_close f os))) (snd (snd (OSMFile_close f os))))
        \<noteq> None \<and>
      trace (snd (snd (OSMFile_close (fst (snd (OSMFile_close f os)))
                         (snd (snd (OSMFile_close f os)))))) =
        trace (snd (snd (OSMFile_close f os))) @ [SysWaitpid (m_childpid f)])"
proof -
  let ?f0 = "if m_fd f > 0 then f\<lparr>m_fd := - 1\<rparr> else f"
  let ?os0 = "if m_fd f > 0 then sys_close (m_fd f) os else os"
  show ?thesis
  proof (cases "m_childpid f = 0")
    case True
    then show ?thesis
      by (simp add: OSMFile_close_def)
  next
    case False
    obtain pid st os2 where w: "waitpid (m_childpid f) ?os0 = (pid, st, os2)"
      by (cases "waitpid (m_childpid f) ?os0")
    have again: "fst (waitpid (m_childpid f) os2) = - 1"
      using waitpid_again[of "m_childpid f" ?os0] w by simp
    obtain pid' st' os3 where w2: "waitpid (m_childpid f) os2 = (pid', st', os3)"
      by (cases "waitpid (m_childpid f) os2")
    have tr: "trace os3 = trace os2 @ [SysWaitpid (m_childpid f)]"
      using w2 by (auto simp: waitpid_def split: option.splits)
    from again w2 have neg: "pid' = - 1" by simp
    show ?thesis
      using False w w2 neg tr
      by (auto simp: OSMFile_close_def Let_def split: if_splits)
  qed
qed

text \<open>
  The failing input: descriptor 5, child 42, and the child exits with status 1. The
  first \<open>close()\<close> closes descriptor 5, waits, and throws; the handle keeps child
  42. The second \<open>close()\<close> waits for child 42 again and throws again.
\<close>

theorem close_after_failed_close_witness:
  "OSMFile_close stuck_file (idle_os\<lparr>children := [(42, Exited 1)]\<rparr>) =
     (Some (IOError ''Subprocess returned error'' '''' 0),
      stuck_file\<lparr>m_fd := - 1\<rparr>,
      idle_os\<lparr>trace := [SysClose 5, SysWaitpid 42]\<rparr>) \<and>
   m_childpid (stuck_file\<lparr>m_fd := - 1\<rparr>) = 42 \<and>
   OSMFile_close (stuck_file\<lparr>m_fd := - 1\<rparr>) (idle_os\<lparr>trace := [SysClose 5, SysWaitpid 42]\<rparr>) =
     (Some (IOError ''Subprocess returned error'' '''' 10),
      stuck_file\<lparr>m_fd := - 1\<rparr>,
      idle_os\<lparr>trace := [SysClose 5, SysWaitpid 42, SysWaitpid 42], os_errno := 10\<rparr>)"
  using close_after_failed_close[of stuck_file "idle_os\<lparr>children := [(42, Exited 1)]\<rparr>"]
  by (simp add: OSMFile_close_def stuck_file_def idle_os_def sys_close_def waitpid_def)

section \<open>Lemmas about the writer\<close>

text \<open>
  Every function of the writer logs the calls expected of it, or throws.
\<close>

lemma wrote_refl: "wrote x [] x"
  by (simp add: wrote_def)
















lemma open_close_op_tag_outcome:
  assumes "open_close_op_tag op x = (r, x')"
  shows "outcome x r x' (transition_calls (m_last_op x) op) op"
  using assms
  by (auto simp: open_close_op_tag_def outcome_def transition_calls_def when_st_def
      checked_def skip_def out_def Let_def is_op_def wrapper_name_def
      split: if_splits option.splits nat.splits)














































lemma open_close_op_tag_failure:
  assumes "fst (open_close_op_tag op x) \<noteq> None"
  shows "fst (open_close_op_tag op x) = Some XMLWriteError \<and>
         m_last_op (snd (open_close_op_tag op x)) = m_last_op x"
  using assms
  by (auto simp: open_close_op_tag_def when_st_def checked_def skip_def Let_def
      split: if_splits option.splits nat.splits)













section \<open>Properties of XMLOutput\<close>



text \<open>
  Claim C2. \<open>open_close_op_tag op\<close> does nothing when \<open>op\<close> is the tracked
  operation. Otherwise it first ends the open wrapper if one is open (the tracked
  operation is not \<^verbatim>\<open>'\0'\<close>), then starts the element \<open>create\<close>,
  \<open>modify\<close> or \<open>delete\<close> for the operation \<open>c\<close>, \<open>m\<close> or \<open>d\<close> and none for
  \<^verbatim>\<open>'\0'\<close>, and finally sets the tracked operation to \<open>op\<close>. When a write
  fails the tracked operation is unchanged; on a writer that never fails the transition
  succeeds.
\<close>

theorem grouping_transition:
  "(op = m_last_op x \<longrightarrow> open_close_op_tag op x = (None, x)) \<and>
   (op \<noteq> m_last_op x \<and> fst (open_close_op_tag op x) = None \<longrightarrow>
      out (snd (open_close_op_tag op x)) =
        out x @ (if m_last_op x \<noteq> CHR 0x00 then [EndElement] else []) @
        (if op = CHR ''c'' then [StartElement ''create'']
         else if op = CHR ''m'' then [StartElement ''modify'']
         else if op = CHR ''d'' then [StartElement ''delete'']
         else []) \<and>
      m_last_op (snd (open_close_op_tag op x)) = op \<and>
      m_file (snd (open_close_op_tag op x)) = m_file x) \<and>
   (fst (open_close_op_tag op x) \<noteq> None \<longrightarrow>
      fst (open_close_op_tag op x) = Some XMLWriteError \<and>
      m_last_op (snd (open_close_op_tag op x)) = m_last_op x) \<and>
   (fail_after (m_xml_writer x) = None \<longrightarrow> fst (open_close_op_tag op x) = None)"
proof -
  let ?res = "open_close_op_tag op x"
  have run: "?res = (fst ?res, snd ?res)" by simp
  have o: "outcome x (fst ?res) (snd ?res) (transition_calls (m_last_op x) op) op"
    by (rule open_close_op_tag_outcome[OF run])
  have a: "op = m_last_op x \<longrightarrow> ?res = (None, x)"
    by (simp add: open_close_op_tag_def)
  have b: "op \<noteq> m_last_op x \<and> fst ?res = None \<longrightarrow>
      out (snd ?res) =
        out x @ (if m_last_op x \<noteq> CHR 0x00 then [EndElement] else []) @
        (if op = CHR ''c'' then [StartElement ''create'']
         else if op = CHR ''m'' then [StartElement ''modify'']
         else if op = CHR ''d'' then [StartElement ''delete'']
         else []) \<and>
      m_last_op (snd ?res) = op \<and> m_file (snd ?res) = m_file x"
    using o by (auto simp: outcome_def transition_calls_def is_op_def wrapper_name_def)
  have c: "fst ?res \<noteq> None \<longrightarrow>
      fst ?res = Some XMLWriteError \<and> m_last_op (snd ?res) = m_last_op x"
    using open_close_op_tag_failure[of op x] by blast
  have d: "fail_after (m_xml_writer x) = None \<longrightarrow> fst ?res = None"
    using o by (simp add: outcome_def)
  show ?thesis using a b c d by blast
qed

text \<open>
  The transition from create to create, from create to modify, from delete to none and
  from none to delete; and from create to modify on a writer whose second call fails.
\<close>

theorem grouping_transition_witness:
  "open_close_op_tag (CHR ''c'') ((fresh_output Change)\<lparr>m_last_op := CHR ''c''\<rparr>) =
     (None, (fresh_output Change)\<lparr>m_last_op := CHR ''c''\<rparr>) \<and>
   out (snd (open_close_op_tag (CHR ''m'') ((fresh_output Change)\<lparr>m_last_op := CHR ''c''\<rparr>))) =
     [EndElement, StartElement ''modify''] \<and>
   m_last_op (snd (open_close_op_tag (CHR ''m'') ((fresh_output Change)\<lparr>m_last_op := CHR ''c''\<rparr>)))
     = CHR ''m'' \<and>
   out (snd (open_close_op_tag (CHR 0x00) ((fresh_output Change)\<lparr>m_last_op := CHR ''d''\<rparr>))) =
     [EndElement] \<and>
   out (snd (open_close_op_tag (CHR ''d'') (fresh_output Change))) = [StartElement ''delete''] \<and>
   fst (open_close_op_tag (CHR ''m'')
         ((fresh_output Change)\<lparr>m_last_op := CHR ''c'',
            m_xml_writer := \<lparr>calls = [], fail_after = Some 1, freed = False\<rparr>\<rparr>))
     = Some XMLWriteError \<and>
   m_last_op (snd (open_close_op_tag (CHR ''m'')
         ((fresh_output Change)\<lparr>m_last_op := CHR ''c'',
            m_xml_writer := \<lparr>calls = [], fail_after = Some 1, freed = False\<rparr>\<rparr>)))
     = CHR ''c''"
proof -
  let ?busy = "(fresh_output Change)\<lparr>m_last_op := CHR ''c''\<rparr>"
  let ?weak = "(fresh_output Change)\<lparr>m_last_op := CHR ''c'',
            m_xml_writer := \<lparr>calls = [], fail_after = Some 1, freed = False\<rparr>\<rparr>"
  have f: "fst (open_close_op_tag (CHR ''m'') ?weak) \<noteq> None"
    by (simp add: open_close_op_tag_def when_st_def checked_def fresh_output_def)
  show ?thesis
    using grouping_transition[of "CHR ''c''" ?busy]
      grouping_transition[of "CHR ''m''" ?busy]
      grouping_transition[of "CHR 0x00" "(fresh_output Change)\<lparr>m_last_op := CHR ''d''\<rparr>"]
      grouping_transition[of "CHR ''d''" "fresh_output Change"]
      grouping_transition[of "CHR ''m''" ?weak] f
    by (simp add: fresh_output_def out_def)
qed







end
